theory Spec2Isabelle
  imports Complex_Main "HOL-Library.Word"
begin

section \<open>Common conventions\<close>

text \<open>
  Python floats are modelled by \<^typ>\<open>real\<close> (comparisons, swaps and clamps are exact on
  finite floats; rounding of products and quotients is not modelled), Python's unbounded
  integers by \<^typ>\<open>int\<close>. Every \<^verbatim>\<open>raise\<close> of the source is an \<open>Inl\<close> result.
\<close>

datatype py_error =
    ValueError string
  | IOError string
  | TypeError
  | ZeroDivisionError
  | IndexError
  | AssertionError
  | OverflowError

text \<open>Python float division: a zero divisor raises.\<close>

definition py_fdiv :: "real \<Rightarrow> real \<Rightarrow> py_error + real" where
  "py_fdiv a b = (if b = 0 then Inl ZeroDivisionError else Inr (a / b))"

text \<open>
  Python's slice \<^verbatim>\<open>xs[i:j]\<close> on a sequence: negative bounds count from the end and
  both bounds are clipped into the sequence.
\<close>

definition py_bound :: "nat \<Rightarrow> int \<Rightarrow> nat" where
  "py_bound n i = (if i < 0 then nat (max 0 (int n + i)) else min n (nat i))"

definition py_slice :: "'a list \<Rightarrow> int \<Rightarrow> int \<Rightarrow> 'a list" where
  "py_slice xs i j = (let a = py_bound (length xs) i; b = py_bound (length xs) j
                      in take (b - a) (drop a xs))"

section \<open>align_frames.get_window\<close>

text \<open>
  \<^verbatim>\<open>
  def get_window(avg, crop=[], **extra):
      x, y, w, h = 0, 0, -1, -1
      if len(crop) > 0: x = crop[0]
      if len(crop) > 1: y = crop[1]
      if len(crop) > 2: w = crop[2]
      if len(crop) > 3: h = crop[3]
      if w == -1: w = avg.shape[1]
      if h == -1: h = avg.shape[0]
      return x, y, w, h
  \<close>
  The image enters only through its shape \<open>(rows, columns)\<close>.
\<close>

definition get_window :: "nat \<times> nat \<Rightarrow> int list \<Rightarrow> int \<times> int \<times> int \<times> int" where
  "get_window shape crop =
     (let x = 0; y = 0; w = - 1; h = - 1;
          x = (if length crop > 0 then crop ! 0 else x);
          y = (if length crop > 1 then crop ! 1 else y);
          w = (if length crop > 2 then crop ! 2 else w);
          h = (if length crop > 3 then crop ! 3 else h);
          w = (if w = - 1 then int (snd shape) else w);
          h = (if h = - 1 then int (fst shape) else h)
      in (x, y, w, h))"

section \<open>estimate2d.search_model_2d: preparation of the search radii\<close>

text \<open>
  \<^verbatim>\<open>
  def search_model_2d(powspec, dfmin, dfmax, fstep, rmin, rmax, ampcont, cs, voltage,
                      pad=1.0, apix=None, xmag=None, res=None, **extra):
      if rmin < rmax: rmin, rmax = rmax, rmin
      if dfmax < dfmin: dfmin, dfmax = dfmax, dfmin
      if apix is None: apix = res*(10.0**4.0)/xmag
      if rmin > 50: rmin = 50.0
      if rmax > rmin: raise ValueError, "Increase rmax, rmin cannot be greater than 50"
      apix *= pad
      rmin = apix/rmin
      rmax = apix/rmax
      rmin2, rmax2 = rmin**2,rmax**2
      hw = -1.0/rmax2
      ...
  \<close>
  The model is the function up to the point where the prepared values are handed to the
  grid search of the compiled \<^verbatim>\<open>_ctf\<close> module; its result is the prepared values.
\<close>

record search_params =
  sp_dfmin :: real
  sp_dfmax :: real
  sp_apix :: real
  sp_rmin :: real
  sp_rmax :: real
  sp_rmin2 :: real
  sp_rmax2 :: real
  sp_hw :: real

definition increase_rmax :: string where
  "increase_rmax = ''Increase rmax, rmin cannot be greater than 50''"

definition initial_apix :: "real option \<Rightarrow> real option \<Rightarrow> real option \<Rightarrow> py_error + real" where
  "initial_apix apix xmag res =
     (case apix of
        Some a \<Rightarrow> Inr a
      | None \<Rightarrow>
          (case res of
             None \<Rightarrow> Inl TypeError
           | Some r \<Rightarrow>
               (case xmag of
                  None \<Rightarrow> Inl TypeError
                | Some m \<Rightarrow> py_fdiv (r * 10 ^ 4) m)))"

definition search_model_2d ::
  "real \<Rightarrow> real \<Rightarrow> real \<Rightarrow> real \<Rightarrow> real \<Rightarrow> real option \<Rightarrow> real option \<Rightarrow> real option
     \<Rightarrow> py_error + search_params" where
  "search_model_2d dfmin dfmax rmin rmax pad apix xmag res =
     (let (rmin, rmax) = (if rmin < rmax then (rmax, rmin) else (rmin, rmax));
          (dfmin, dfmax) = (if dfmax < dfmin then (dfmax, dfmin) else (dfmin, dfmax))
      in case initial_apix apix xmag res of
           Inl e \<Rightarrow> Inl e
         | Inr apix \<Rightarrow>
            (let rmin = (if rmin > 50 then 50 else rmin)
             in if rmax > rmin then Inl (ValueError increase_rmax)
                else
                  (let apix = apix * pad
                   in case py_fdiv apix rmin of
                        Inl e \<Rightarrow> Inl e
                      | Inr rmin \<Rightarrow>
                         (case py_fdiv apix rmax of
                            Inl e \<Rightarrow> Inl e
                          | Inr rmax \<Rightarrow>
                             (let rmin2 = rmin ^ 2; rmax2 = rmax ^ 2
                              in case py_fdiv (- 1) rmax2 of
                                   Inl e \<Rightarrow> Inl e
                                 | Inr hw \<Rightarrow>
                                     Inr \<lparr>sp_dfmin = dfmin, sp_dfmax = dfmax, sp_apix = apix,
                                          sp_rmin = rmin, sp_rmax = rmax, sp_rmin2 = rmin2,
                                          sp_rmax2 = rmax2, sp_hw = hw\<rparr>)))))"

section \<open>diffclean.decimation_level\<close>

text \<open>
  \<^verbatim>\<open>
  def resolution_from_order(apix, pixel_diameter, order, resolution, **extra):
      if order == 0 or 1 == 1: return resolution
      res = numpy.tan(healpix.nside2pixarea(order))*pixel_diameter*apix
      if res > resolution: resolution=res
      return resolution

  def decimation_level(apix, window, **extra):
      resolution = resolution_from_order(apix, **extra)
      dec = resolution / (apix*3)
      d = float(window)/dec + 10
      d = window/float(d)
      return min(max(d, 1), 8)
  \<close>
  \<open>tan_pixarea\<close> stands for \<^verbatim>\<open>numpy.tan(healpix.nside2pixarea(order))\<close> of the
  branch behind \<^verbatim>\<open>1 == 1\<close>. The quotients are those of the reals: a float quotient
  that underflows to zero, and with it a division error that only rounding causes, is not
  modelled.
\<close>

definition resolution_from_order :: "(int \<Rightarrow> real) \<Rightarrow> real \<Rightarrow> real \<Rightarrow> int \<Rightarrow> real \<Rightarrow> real" where
  "resolution_from_order tan_pixarea apix pixel_diameter order resolution =
     (if order = 0 \<or> (1::int) = 1 then resolution
      else (let res = tan_pixarea order * pixel_diameter * apix
            in if res > resolution then res else resolution))"

definition decimation_level ::
  "(int \<Rightarrow> real) \<Rightarrow> real \<Rightarrow> int \<Rightarrow> real \<Rightarrow> int \<Rightarrow> real \<Rightarrow> py_error + real" where
  "decimation_level tan_pixarea apix window pixel_diameter order resolution =
     (let resolution = resolution_from_order tan_pixarea apix pixel_diameter order resolution
      in case py_fdiv resolution (apix * 3) of
           Inl e \<Rightarrow> Inl e
         | Inr dec \<Rightarrow>
            (case py_fdiv (real_of_int window) dec of
               Inl e \<Rightarrow> Inl e
             | Inr q \<Rightarrow>
                (let d = q + 10
                 in case py_fdiv (real_of_int window) d of
                      Inl e \<Rightarrow> Inl e
                    | Inr d \<Rightarrow> Inr (min (max d 1) 8))))"

section \<open>diffclean.group_by_reference\<close>

text \<open>
  \<^verbatim>\<open>
  def group_by_reference(label, align, ref):
      group=[]
      refs = numpy.unique(ref)
      if isinstance(label, tuple):
          filename, label = label
          for r in refs:
              sel = r == ref
              group.append((r, (filename, label[sel]), align[sel]))
      else:
          ...
          for r in refs:
              sel = r == ref
              group.append((r, [label[i] for i in numpy.argwhere(sel).squeeze()], align[sel]))
      return group
  \<close>
  The label argument is either a tuple \<open>(filename, rows)\<close> or a plain list of rows; the
  alignment array is a list of rows and \<open>ref\<close> a list of view numbers, one per particle.
  Boolean-mask selection \<^verbatim>\<open>a[sel]\<close> keeps the rows whose mask entry is true and
  raises an index error when the mask and the array differ in length. The logging
  statements, which have no effect on the result, are left out.
\<close>

datatype 'l labels = TupleLabels string "'l list" | ListLabels "'l list"

type_synonym ('l, 'a) view_group = "int \<times> 'l labels \<times> 'a list"

definition numpy_unique :: "int list \<Rightarrow> int list" where
  "numpy_unique ref = remdups (sort ref)"

definition mask_select :: "bool list \<Rightarrow> 'a list \<Rightarrow> py_error + 'a list" where
  "mask_select sel xs =
     (if length sel = length xs then Inr (map snd (filter fst (zip sel xs)))
      else Inl IndexError)"

text \<open>
  \<^verbatim>\<open>numpy.argwhere(sel)\<close> of a one-dimensional mask is a \<open>k \<times> 1\<close> array of the
  positions of the true entries; \<^verbatim>\<open>squeeze()\<close> removes every axis of length one, so for
  \<open>k = 1\<close> the result is a zero-dimensional array, which cannot be iterated.
\<close>

datatype index_array = Scalar0 nat | Vector1 "nat list"

definition argwhere :: "bool list \<Rightarrow> nat list" where
  "argwhere sel = filter (\<lambda>i. sel ! i) [0..<length sel]"

definition squeeze :: "nat list \<Rightarrow> index_array" where
  "squeeze idx = (case idx of [i] \<Rightarrow> Scalar0 i | _ \<Rightarrow> Vector1 idx)"

definition iterate :: "index_array \<Rightarrow> py_error + nat list" where
  "iterate a = (case a of Scalar0 i \<Rightarrow> Inl TypeError | Vector1 idx \<Rightarrow> Inr idx)"

fun list_items :: "'a list \<Rightarrow> nat list \<Rightarrow> py_error + 'a list" where
  "list_items xs [] = Inr []"
| "list_items xs (i # idx) =
     (if i < length xs
      then (case list_items xs idx of Inl e \<Rightarrow> Inl e | Inr ys \<Rightarrow> Inr (xs ! i # ys))
      else Inl IndexError)"

fun group_tuple_loop ::
  "string \<Rightarrow> 'l list \<Rightarrow> 'a list \<Rightarrow> int list \<Rightarrow> int list
     \<Rightarrow> py_error + ('l, 'a) view_group list" where
  "group_tuple_loop filename label align ref [] = Inr []"
| "group_tuple_loop filename label align ref (r # refs) =
     (let sel = map (\<lambda>x. r = x) ref
      in case mask_select sel label of
           Inl e \<Rightarrow> Inl e
         | Inr ls \<Rightarrow>
            (case mask_select sel align of
               Inl e \<Rightarrow> Inl e
             | Inr al \<Rightarrow>
                (case group_tuple_loop filename label align ref refs of
                   Inl e \<Rightarrow> Inl e
                 | Inr gs \<Rightarrow> Inr ((r, TupleLabels filename ls, al) # gs))))"

fun group_list_loop ::
  "'l list \<Rightarrow> 'a list \<Rightarrow> int list \<Rightarrow> int list \<Rightarrow> py_error + ('l, 'a) view_group list" where
  "group_list_loop label align ref [] = Inr []"
| "group_list_loop label align ref (r # refs) =
     (let sel = map (\<lambda>x. r = x) ref
      in case iterate (squeeze (argwhere sel)) of
           Inl e \<Rightarrow> Inl e
         | Inr idx \<Rightarrow>
            (case list_items label idx of
               Inl e \<Rightarrow> Inl e
             | Inr ls \<Rightarrow>
                (case mask_select sel align of
                   Inl e \<Rightarrow> Inl e
                 | Inr al \<Rightarrow>
                    (case group_list_loop label align ref refs of
                       Inl e \<Rightarrow> Inl e
                     | Inr gs \<Rightarrow> Inr ((r, ListLabels ls, al) # gs)))))"

definition group_by_reference ::
  "'l labels \<Rightarrow> 'a list \<Rightarrow> int list \<Rightarrow> py_error + ('l, 'a) view_group list" where
  "group_by_reference label align ref =
     (let refs = numpy_unique ref
      in case label of
           TupleLabels filename rows \<Rightarrow> group_tuple_loop filename rows align ref refs
         | ListLabels rows \<Rightarrow> group_list_loop rows align ref refs)"

definition group_size :: "('l, 'a) view_group \<Rightarrow> nat" where
  "group_size g = (case fst (snd g) of TupleLabels f rows \<Rightarrow> length rows
                                     | ListLabels rows \<Rightarrow> length rows)"

section \<open>diffclean.init_root: selection of the view groups\<close>

text \<open>
  \<^verbatim>\<open>
      group = group_by_reference(label, align, ref)
      if param['single_view'] > 0:
          tmp=group
          group = [tmp[param['single_view']-1]]
      else:
          count = numpy.zeros((len(group)))
          for i in xrange(count.shape[0]):
              if isinstance(group[i][1], tuple):
                  count[i] = len(group[i][1][1])
              else:
                  count[i] = len(group[i][1])
          index = numpy.argsort(count)
          newgroup=[]
          for i in index[::-1]:
              if count[i] > 20:
                  newgroup.append(group[i])
          group=newgroup
      ...
      _logger.info("Processing %d groups - after removing views with less than 20 particles"%len(group))
      return group
  \<close>
  The model starts from the grouped input. \<^verbatim>\<open>numpy.argsort\<close> is an ascending sort of
  the positions by count (the order among equal counts, which numpy leaves open, is taken
  to be the stable one).
\<close>

definition argsort :: "nat list \<Rightarrow> nat list" where
  "argsort count = sort_key (\<lambda>i. count ! i) [0..<length count]"

definition init_root :: "int \<Rightarrow> ('l, 'a) view_group list \<Rightarrow> py_error + ('l, 'a) view_group list" where
  "init_root single_view grp =
     (if single_view > 0
      then (if nat (single_view - 1) < length grp
            then Inr [grp ! nat (single_view - 1)]
            else Inl IndexError)
      else (let count = map group_size grp;
                index = argsort count
            in Inr (map (\<lambda>i. grp ! i) (filter (\<lambda>i. count ! i > 20) (rev index)))))"

section \<open>ImageViewer: paging\<close>

text \<open>
  \<^verbatim>\<open>
  def imageSubset(self, index, count):
      if hasattr(self.advanced_settings, 'average') and self.advanced_settings.average:
          return self.files[index*count:(index+1)*count], index*count
      return self.file_index[index*count:(index+1)*count], index*count

  def imageTotal(self):
      if hasattr(self.advanced_settings, 'average') and self.advanced_settings.average:
          return len(self.files)
      return len(self.file_index)

  def on_loadImagesPushButton_clicked(self):
      if len(self.files) == 0: return
      self.imageListModel.clear()
      index, start=self.imageSubset(self.ui.pageSpinBox.value()-1, self.ui.imageCountSpinBox.value())
      if len(index) == 0:
          self.ui.pageSpinBox.setValue(0)
          self.ui.imageCountSpinBox.setValue(1)
          index, start=self.imageSubset(0, 1)
      ...
  \<close>
  A spin box holds a value inside its range; \<^verbatim>\<open>setValue\<close> forces the new value into the
  range. The ranges are set up by the generated user-interface class, so they are fields
  of the model. The handler is modelled up to the choice of the entries to load.
\<close>

record spinbox =
  sb_value :: int
  sb_minimum :: int
  sb_maximum :: int

definition setValue :: "spinbox \<Rightarrow> int \<Rightarrow> spinbox" where
  "setValue sb v = sb\<lparr>sb_value := (if v < sb_minimum sb then sb_minimum sb
                                    else if v > sb_maximum sb then sb_maximum sb else v)\<rparr>"

datatype entry = FileEntry string | IndexEntry nat nat nat

record viewer =
  files :: "string list"
  file_index :: "(nat \<times> nat \<times> nat) list"
  average :: "bool option"
  pageSpinBox :: spinbox
  imageCountSpinBox :: spinbox

definition items :: "viewer \<Rightarrow> entry list" where
  "items v = (if average v = Some True then map FileEntry (files v)
              else map (\<lambda>(f, i, t). IndexEntry f i t) (file_index v))"

definition imageSubset :: "viewer \<Rightarrow> int \<Rightarrow> int \<Rightarrow> entry list \<times> int" where
  "imageSubset v index count =
     (py_slice (items v) (index * count) ((index + 1) * count), index * count)"

definition imageTotal :: "viewer \<Rightarrow> nat" where
  "imageTotal v = length (items v)"

definition on_loadImagesPushButton_clicked :: "viewer \<Rightarrow> viewer \<times> (entry list \<times> int) option" where
  "on_loadImagesPushButton_clicked v =
     (if length (files v) = 0 then (v, None)
      else
        (let (index, start) = imageSubset v (sb_value (pageSpinBox v) - 1)
                                            (sb_value (imageCountSpinBox v))
         in if length index = 0
            then (let v = v\<lparr>pageSpinBox := setValue (pageSpinBox v) 0\<rparr>;
                      v = v\<lparr>imageCountSpinBox := setValue (imageCountSpinBox v) 1\<rparr>
                  in (v, Some (imageSubset v 0 1)))
            else (v, Some (index, start))))"

section \<open>eman_format: the EMAN2/Sparx format adapter\<close>

text \<open>
  The EMAN2 library and the helper \<^verbatim>\<open>spider._update_header\<close> are outside the module;
  they are the fields of \<open>eman2\<close>, working on a file system that maps a path to the bytes
  of the file. Every call that touches a file is recorded in \<open>accesses\<close>. An image object
  (\<^verbatim>\<open>EMData\<close>, or the array converted by \<^verbatim>\<open>numpy2em\<close>/\<^verbatim>\<open>em2numpy\<close>) is a value of \<open>'img\<close>.
\<close>

datatype image_type =
  IMAGE_UNKNOWN | IMAGE_MRC | IMAGE_SPIDER | IMAGE_SINGLE_SPIDER | IMAGE_OTHER nat

text \<open>The \<^verbatim>\<open>filename\<close> argument: a string, or an object such as an open stream.\<close>

datatype pyobj = PyStr string | PyStream

type_synonym byte = "8 word"
type_synonym filesystem = "string \<rightharpoonup> byte list"
type_synonym header = "(string \<times> real) list"

datatype access =
    GetImageType string
  | GetImageCount string
  | ReadImage string "int option"
  | WriteImage string int image_type
  | OpenFile string

record world =
  disk :: filesystem
  accesses :: "access list"

record 'img eman2 =
  get_image_type :: "filesystem \<Rightarrow> string \<Rightarrow> py_error + image_type"
  get_image_count :: "filesystem \<Rightarrow> string \<Rightarrow> int"
  read_image_c :: "filesystem \<Rightarrow> string \<Rightarrow> int option \<Rightarrow> py_error + 'img"
  get_attr_label0 :: "'img \<Rightarrow> string option"
  flip_y :: "'img \<Rightarrow> 'img"
  set_attr :: "string \<Rightarrow> real \<Rightarrow> 'img \<Rightarrow> 'img"
  get_image_ext_type :: "string \<Rightarrow> image_type"
  write_image_c :: "filesystem \<Rightarrow> string \<Rightarrow> 'img \<Rightarrow> int \<Rightarrow> image_type \<Rightarrow> py_error + filesystem"
  update_header_read :: "'img \<Rightarrow> header \<Rightarrow> header"
  update_header_write :: "header option \<Rightarrow> header"

definition no_streams :: string where
  "no_streams = ''EMAN2/Sparx formats do not support file streams''"

definition not_supported :: string where
  "not_supported = ''Format not supported by EMAN2/Sparx''"

text \<open>Python's \<^verbatim>\<open>"%d" % i\<close> for an integer.\<close>

fun decimal :: "nat \<Rightarrow> string" where
  "decimal n = (if n < 10 then [''0123456789'' ! n]
                else decimal (n div 10) @ [''0123456789'' ! (n mod 10)])"

definition format_d :: "int \<Rightarrow> string" where
  "format_d i = (if i < 0 then CHR ''-'' # decimal (nat (- i)) else decimal (nat i))"

definition index_exceeds :: "int \<Rightarrow> int \<Rightarrow> string" where
  "index_exceeds index count =
     ''Index exceeds number of images in stack: '' @ format_d index @ '' < '' @ format_d count"

text \<open>
  \<^verbatim>\<open>
  try: "+"+filename
  except: raise ValueError, "EMAN2/Sparx formats do not support file streams"
  \<close>
\<close>

definition concat_check :: "pyobj \<Rightarrow> py_error + string" where
  "concat_check filename =
     (case filename of PyStr s \<Rightarrow> Inr s | PyStream \<Rightarrow> Inl (ValueError no_streams))"

definition touch :: "access \<Rightarrow> world \<Rightarrow> world" where
  "touch a w = w\<lparr>accesses := accesses w @ [a]\<rparr>"

text \<open>
  \<^verbatim>\<open>
  def is_readable(filename):
      try: return EMUtil.get_image_type(filename) != EMUtil.ImageType.IMAGE_UNKNOWN
      except: return False
  \<close>
\<close>

definition is_readable :: "'img eman2 \<Rightarrow> world \<Rightarrow> string \<Rightarrow> bool \<times> world" where
  "is_readable E w filename =
     ((case get_image_type E (disk w) filename of
         Inl e \<Rightarrow> False
       | Inr t \<Rightarrow> t \<noteq> IMAGE_UNKNOWN),
      touch (GetImageType filename) w)"

text \<open>Python's \<^verbatim>\<open>s.find(sub) != -1\<close>.\<close>

fun starts_with :: "string \<Rightarrow> string \<Rightarrow> bool" where
  "starts_with s [] = True"
| "starts_with [] (c # sub) = False"
| "starts_with (d # s) (c # sub) = (d = c \<and> starts_with s sub)"

fun found :: "string \<Rightarrow> string \<Rightarrow> bool" where
  "found [] sub = (sub = [])"
| "found (d # s) sub = (starts_with (d # s) sub \<or> found s sub)"

text \<open>
  \<^verbatim>\<open>
  def read_image(filename, index=None, header=None, cache=None):
      try: "+"+filename
      except: raise ValueError, "EMAN2/Sparx formats do not support file streams"
      if not is_readable(filename): raise IOError, "Format not supported by EMAN2/Sparx"
      emdata = eman2_utility.EMAN2.EMData() if cache is None else cache
      if index is None: emdata.read_image_c(filename)
      else: emdata.read_image_c(filename, index)
      if header is not None: _update_header(emdata.todict(), header, eman2ara)
      type = eman2_utility.EMAN2.EMUtil.get_image_type(filename)
      if type == eman2_utility.EMAN2.EMUtil.ImageType.IMAGE_MRC:
          try: mrc_label = emdata.get_attr('MRC.label0')
          except: mrc_label = ""
          if (mrc_label.find('IMAGIC') != -1 and mrc_label.find('SPIDER') != -1):
              emdata.process_inplace("xform.flip",{"axis":"y"})
      data = eman2_utility.em2numpy(emdata)
      if cache is None: data = data.copy()
      return data
  \<close>
  The result is the image together with the header dictionary that the call updates.
  The \<^verbatim>\<open>cache\<close> object only decides whether the returned array shares memory with it.
\<close>

definition read_image ::
  "'img eman2 \<Rightarrow> world \<Rightarrow> pyobj \<Rightarrow> int option \<Rightarrow> header option
     \<Rightarrow> (py_error + 'img \<times> header option) \<times> world" where
  "read_image E w filename index hdr =
     (case concat_check filename of
        Inl e \<Rightarrow> (Inl e, w)
      | Inr fname \<Rightarrow>
         (let (ok, w) = is_readable E w fname
          in if \<not> ok then (Inl (IOError not_supported), w)
             else
               (let w = touch (ReadImage fname index) w
                in case read_image_c E (disk w) fname index of
                     Inl e \<Rightarrow> (Inl e, w)
                   | Inr emdata \<Rightarrow>
                      (let hdr = map_option (update_header_read E emdata) hdr;
                           w = touch (GetImageType fname) w
                       in case get_image_type E (disk w) fname of
                            Inl e \<Rightarrow> (Inl e, w)
                          | Inr ty \<Rightarrow>
                             (let emdata =
                                (if ty = IMAGE_MRC
                                 then (let mrc_label = (case get_attr_label0 E emdata of
                                                          None \<Rightarrow> [] | Some l \<Rightarrow> l)
                                       in if found mrc_label ''IMAGIC'' \<and> found mrc_label ''SPIDER''
                                          then flip_y E emdata else emdata)
                                 else emdata)
                              in (Inr (emdata, hdr), w))))))"

text \<open>
  \<^verbatim>\<open>
  def count_images(filename):
      try: "+"+filename
      except: raise ValueError, "EMAN2/Sparx formats do not support file streams"
      if not is_readable(filename): raise IOError, "Format not supported by EMAN2/Sparx"
      return eman2_utility.EMAN2.EMUtil.get_image_count(filename)
  \<close>
\<close>

definition count_images :: "'img eman2 \<Rightarrow> world \<Rightarrow> pyobj \<Rightarrow> (py_error + int) \<times> world" where
  "count_images E w filename =
     (case concat_check filename of
        Inl e \<Rightarrow> (Inl e, w)
      | Inr fname \<Rightarrow>
         (let (ok, w) = is_readable E w fname
          in if \<not> ok then (Inl (IOError not_supported), w)
             else (let w = touch (GetImageCount fname) w
                   in (Inr (get_image_count E (disk w) fname), w))))"

text \<open>
  \<^verbatim>\<open>
  def iter_images(filename, index=None, header=None):
      try: "+"+filename
      except: raise ValueError, "EMAN2/Sparx formats do not support file streams"
      if not is_readable(filename): raise IOError, "Format not supported by EMAN2/Sparx"
      if index is None: index = 0
      emdata = eman2_utility.EMAN2.EMData()
      count = count_images(filename)
      if index >= count: raise IOError, "Index exceeds number of images in stack: ..."
      for i in xrange(index, count):
          img = read_image(filename, i, header, emdata)
          yield img
  \<close>
  The function is a generator: its body runs when the caller asks for the first image.
  The model is the run of the generator to its end, giving the images in order or the
  first error.
\<close>

fun iter_loop ::
  "'img eman2 \<Rightarrow> world \<Rightarrow> pyobj \<Rightarrow> header option \<Rightarrow> int list
     \<Rightarrow> (py_error + 'img list) \<times> world" where
  "iter_loop E w filename hdr [] = (Inr [], w)"
| "iter_loop E w filename hdr (i # rest) =
     (case read_image E w filename (Some i) hdr of
        (Inl e, w) \<Rightarrow> (Inl e, w)
      | (Inr (img, hdr), w) \<Rightarrow>
          (case iter_loop E w filename hdr rest of
             (Inl e, w) \<Rightarrow> (Inl e, w)
           | (Inr imgs, w) \<Rightarrow> (Inr (img # imgs), w)))"

definition iter_images ::
  "'img eman2 \<Rightarrow> world \<Rightarrow> pyobj \<Rightarrow> int option \<Rightarrow> header option
     \<Rightarrow> (py_error + 'img list) \<times> world" where
  "iter_images E w filename index hdr =
     (case concat_check filename of
        Inl e \<Rightarrow> (Inl e, w)
      | Inr fname \<Rightarrow>
         (let (ok, w) = is_readable E w fname
          in if \<not> ok then (Inl (IOError not_supported), w)
             else
               (let index = (case index of None \<Rightarrow> 0 | Some i \<Rightarrow> i)
                in case count_images E w filename of
                     (Inl e, w) \<Rightarrow> (Inl e, w)
                   | (Inr count, w) \<Rightarrow>
                       if index \<ge> count then (Inl (IOError (index_exceeds index count)), w)
                       else iter_loop E w filename hdr [index..count - 1])))"

text \<open>
  \<^verbatim>\<open>
  def write_image(filename, img, index=None, header=None, type=None):
      try: "+"+filename
      except: raise ValueError, "EMAN2/Sparx formats do not support file streams"
      if not eman2_utility.is_em(img):
          img = eman2_utility.numpy2em(img)
      h={}
      header=_update_header(h, header, ara2eman)
      for key, val in header.iteritems(): img.set_attr(key, val)
      if type is None:
          type = EMUtil.get_image_ext_type(Util.get_filename_ext(filename))
      if type == EMUtil.ImageType.IMAGE_MRC:
          img.process_inplace("xform.flip",{"axis":"y"})
      if type == EMUtil.ImageType.IMAGE_UNKNOWN:
          type = EMUtil.ImageType.IMAGE_SPIDER
      if index is None:
          if type == EMUtil.ImageType.IMAGE_SPIDER:
              type = EMUtil.ImageType.IMAGE_SINGLE_SPIDER
          index = 0
      img.write_image_c(filename, index, type)
      # Workaround for buggy Montage from doc viewer
      if type == EMUtil.ImageType.IMAGE_SINGLE_SPIDER:
          f = open(filename, 'r+b')
          f.seek(26*4)
          f.write(struct.pack('f', 0.0))
          f.close()
  \<close>
  \<^verbatim>\<open>struct.pack('f', 0.0)\<close> is four zero bytes. Opening with mode \<^verbatim>\<open>r+b\<close> fails when the
  file does not exist; writing behind the end of a shorter file fills the gap with zero
  bytes.
\<close>

definition pack_f_zero :: "byte list" where
  "pack_f_zero = [0, 0, 0, 0]"

definition seek_write :: "nat \<Rightarrow> byte list \<Rightarrow> byte list \<Rightarrow> byte list" where
  "seek_write pos new old =
     take pos old @ replicate (pos - length old) 0 @ new @ drop (pos + length new) old"

definition hack_spider_file :: "world \<Rightarrow> string \<Rightarrow> (py_error + unit) \<times> world" where
  "hack_spider_file w filename =
     (let w = touch (OpenFile filename) w
      in case disk w filename of
           None \<Rightarrow> (Inl (IOError filename), w)
         | Some bytes \<Rightarrow>
             (Inr (), w\<lparr>disk := (disk w)(filename \<mapsto> seek_write (26 * 4) pack_f_zero bytes)\<rparr>))"

definition write_image ::
  "'img eman2 \<Rightarrow> world \<Rightarrow> pyobj \<Rightarrow> 'img \<Rightarrow> int option \<Rightarrow> header option \<Rightarrow> image_type option
     \<Rightarrow> (py_error + unit) \<times> world" where
  "write_image E w filename img index hdr ty =
     (case concat_check filename of
        Inl e \<Rightarrow> (Inl e, w)
      | Inr fname \<Rightarrow>
         (let hdr = update_header_write E hdr;
              img = fold (\<lambda>(key, val). set_attr E key val) hdr img;
              ty = (case ty of None \<Rightarrow> get_image_ext_type E fname | Some t \<Rightarrow> t);
              img = (if ty = IMAGE_MRC then flip_y E img else img);
              ty = (if ty = IMAGE_UNKNOWN then IMAGE_SPIDER else ty);
              (ty, index) = (case index of
                               None \<Rightarrow> ((if ty = IMAGE_SPIDER then IMAGE_SINGLE_SPIDER else ty), 0)
                             | Some i \<Rightarrow> (ty, i));
              w = touch (WriteImage fname index ty) w
          in case write_image_c E (disk w) fname img index ty of
               Inl e \<Rightarrow> (Inl e, w)
             | Inr d \<Rightarrow>
                (let w = w\<lparr>disk := d\<rparr>
                 in if ty = IMAGE_SINGLE_SPIDER then hack_spider_file w fname
                    else (Inr (), w))))"

section \<open>diffclean.one_class_classification\<close>










section \<open>align_frames.align_l2\<close>




















section \<open>Properties\<close>

subsection \<open>Crop window of the frame alignment\<close>

text \<open>
  C7 (as amended). \<open>get_window\<close> with an empty crop list returns \<open>(0, 0, width, height)\<close> of
  the image; with a two-entry list \<open>[x, y]\<close> it returns \<open>(x, y, width, height)\<close>; with a
  four-entry list it returns \<open>x\<close> and \<open>y\<close> as given, and \<open>w\<close> and \<open>h\<close> as given unless
  they are \<open>-1\<close>, the marker for the full width and the full height.
\<close>

theorem get_window_crop_cases:
  "get_window shape [] = (0, 0, int (snd shape), int (fst shape))
   \<and> get_window shape [x, y] = (x, y, int (snd shape), int (fst shape))
   \<and> get_window shape [x, y, w, h] =
       (x, y, (if w = - 1 then int (snd shape) else w), (if h = - 1 then int (fst shape) else h))"
  by (simp add: get_window_def)

theorem get_window_crop_cases_witness:
  "get_window (100, 200) [] = (0, 0, 200, 100)
   \<and> get_window (100, 200) [3, 4] = (3, 4, 200, 100)
   \<and> get_window (100, 200) [3, 4, 50, 60] = (3, 4, 50, 60)"
  using get_window_crop_cases [of "(100, 200)" 3 4 50 60] by simp

text \<open>A four-entry crop list holding \<open>-1\<close> is not returned as it is.\<close>

theorem get_window_verbatim_counterexample:
  "get_window (100, 200) [1, 2, - 1, 4] \<noteq> (1, 2, - 1, 4)"
  by (simp add: get_window_def)

subsection \<open>Ordering of the search radii\<close>

text \<open>
  C6 (as amended). \<open>search_model_2d\<close> swaps the radii so that \<open>rmin\<close> is the larger one and
  clamps \<open>rmin\<close> to at most 50. It raises the error that asks to increase \<open>rmax\<close> exactly
  when, after the swap and the clamp and before the pixel size is scaled by \<open>pad\<close>, \<open>rmax\<close>
  is strictly greater than \<open>rmin\<close>, that is when both given radii exceed 50 (and the
  pixel size could be obtained). Equal radii not above 50 are accepted. When the
  preparation returns,
  the radii handed to the search are the scaled pixel size divided by the clamped larger and
  by the smaller given radius.
\<close>

theorem search_model_2d_ordering_error:
  "(search_model_2d dfmin dfmax rmin rmax pad apix xmag res = Inl (ValueError increase_rmax)
      \<longleftrightarrow> (\<exists>a. initial_apix apix xmag res = Inr a) \<and> 50 < min rmin rmax)
   \<and> (\<forall>p. search_model_2d dfmin dfmax rmin rmax pad apix xmag res = Inr p \<longrightarrow>
          sp_rmin p = sp_apix p / min 50 (max rmin rmax)
          \<and> sp_rmax p = sp_apix p / min rmin rmax
          \<and> min rmin rmax \<le> min 50 (max rmin rmax))"
  unfolding search_model_2d_def initial_apix_def py_fdiv_def Let_def
  by (auto split: option.splits sum.splits if_splits)

theorem search_model_2d_ordering_error_witness:
  "search_model_2d 0 1 60 55 1 (Some 1) None None = Inl (ValueError increase_rmax)
   \<and> search_model_2d 0 1 10 80 2 (Some 1) None None
        = Inr \<lparr>sp_dfmin = 0, sp_dfmax = 1, sp_apix = 2, sp_rmin = 2 / 50, sp_rmax = 2 / 10,
               sp_rmin2 = (2 / 50)^2, sp_rmax2 = (2 / 10)^2, sp_hw = - 1 / (2 / 10)^2\<rparr>
   \<and> sp_rmin \<lparr>sp_dfmin = 0, sp_dfmax = 1, sp_apix = 2, sp_rmin = 2 / 50, sp_rmax = 2 / 10,
               sp_rmin2 = (2 / 50)^2, sp_rmax2 = (2 / 10)^2, sp_hw = - 1 / (2 / 10)^2\<rparr>
        = 2 / min 50 (max 10 80)"
proof -
  have e: "search_model_2d 0 1 10 80 2 (Some 1) None None
        = Inr \<lparr>sp_dfmin = 0, sp_dfmax = 1, sp_apix = 2, sp_rmin = 2 / 50, sp_rmax = 2 / 10,
               sp_rmin2 = (2 / 50)^2, sp_rmax2 = (2 / 10)^2, sp_hw = - 1 / (2 / 10)^2\<rparr>"
    by (simp add: search_model_2d_def initial_apix_def py_fdiv_def Let_def)
  have a: "\<exists>a. initial_apix (Some 1) None None = Inr a"
    by (simp add: initial_apix_def)
  show ?thesis
    using search_model_2d_ordering_error [of 0 1 60 55 1 "Some 1" None None]
          search_model_2d_ordering_error [of 0 1 10 80 2 "Some 1" None None] e a
    by simp
qed

text \<open>
  With both radii equal to 30, \<open>rmax\<close> is not less than \<open>rmin\<close>, before and after the
  scaling, and no error is raised.
\<close>

theorem search_model_2d_equal_radii_counterexample:
  "\<not> ((30::real) < 30) \<and>
   (case search_model_2d 0 1 30 30 1 (Some 1) None None of
      Inl e \<Rightarrow> False
    | Inr p \<Rightarrow> \<not> (sp_rmax p < sp_rmin p))"
  by (simp add: search_model_2d_def initial_apix_def py_fdiv_def Let_def)

subsection \<open>Decimation level\<close>

text \<open>When \<open>decimation_level\<close> returns, its value lies between 1 and 8.\<close>

lemma decimation_level_bounds:
  "decimation_level tp apix window pd order resolution = Inr d \<Longrightarrow> 1 \<le> d \<and> d \<le> 8"
  unfolding decimation_level_def py_fdiv_def Let_def
  by (auto split: if_splits)

text \<open>It returns exactly when none of its three divisors is zero.\<close>

lemma decimation_level_returns_iff:
  "(\<exists>d. decimation_level tp apix window pd order resolution = Inr d)
   \<longleftrightarrow> apix \<noteq> 0 \<and> resolution \<noteq> 0 \<and> real_of_int window * (apix * 3) / resolution + 10 \<noteq> 0"
  unfolding decimation_level_def py_fdiv_def Let_def resolution_from_order_def
  by (auto split: if_splits)

text \<open>
  C5. The claim is that \<open>decimation_level\<close> returns a value in \<open>[1, 8]\<close> for every input,
  a zero resolution included. At pixel size 1, window 100 and resolution 0 the division
  \<^verbatim>\<open>float(window)/dec\<close> has the divisor zero and the call ends in a division error.
\<close>

theorem decimation_level_zero_resolution:
  "decimation_level tp 1 100 50 0 0 = Inl ZeroDivisionError"
  by (simp add: decimation_level_def resolution_from_order_def py_fdiv_def)

subsection \<open>Selection of the view groups\<close>



text \<open>Without a forced view, the groups kept are those with more than 20 members.\<close>

lemma init_root_keeps:
  "single_view \<le> 0 \<Longrightarrow> init_root single_view grp = Inr gs
     \<Longrightarrow> set gs = {g \<in> set grp. 20 < group_size g}"
proof -
  assume a: "single_view \<le> 0" and b: "init_root single_view grp = Inr gs"
  have s: "set (argsort (map group_size grp)) = {0..<length grp}"
    by (simp add: argsort_def)
  have "gs = map (\<lambda>i. grp ! i)
               (filter (\<lambda>i. map group_size grp ! i > 20) (rev (argsort (map group_size grp))))"
    using a b by (simp add: init_root_def Let_def)
  then have "set gs = (\<lambda>i. grp ! i) ` {i \<in> {0..<length grp}. 20 < map group_size grp ! i}"
    using s by auto
  also have "\<dots> = (\<lambda>i. grp ! i) ` {i. i < length grp \<and> 20 < group_size (grp ! i)}"
    by (intro image_cong) auto
  also have "\<dots> = {g \<in> set grp. 20 < group_size g}"
    unfolding set_conv_nth by blast
  finally show ?thesis .
qed

text \<open>
  C3. The claim is that only groups with fewer than 20 members are dropped and that a group
  with 20 or more members is kept. A single group with exactly 20 members is dropped.
\<close>

theorem init_root_drops_group_of_twenty:
  "init_root 0 [(7, ListLabels (replicate 20 l), replicate 20 a)] = Inr []"
  by (simp add: init_root_def argsort_def group_size_def)

subsection \<open>Grouping by view\<close>

text \<open>
  With tuple-style labels, and one label row and one alignment row per particle, every
  view of the input gets one group and the sizes of the groups add up to the number of
  particles.
\<close>

lemma mask_select_length:
  "length xs = length ref \<Longrightarrow>
     \<exists>ys. mask_select (map P ref) xs = Inr ys \<and> length ys = length (filter P ref)"
proof -
  assume l: "length xs = length ref"
  have "length (map snd (filter fst (zip (map P ref) xs))) = length (filter P ref)"
    using l by (induction xs ref rule: list_induct2) simp_all
  then show ?thesis using l by (simp add: mask_select_def)
qed

lemma group_tuple_loop_sizes:
  assumes "length rows = length ref" "length align = length ref"
  shows "\<exists>gs. group_tuple_loop f rows align ref refs = Inr gs
              \<and> map fst gs = refs
              \<and> map group_size gs = map (\<lambda>r. length (filter (\<lambda>x. r = x) ref)) refs"
proof (induction refs)
  case Nil
  then show ?case by simp
next
  case (Cons r refs)
  obtain gs where gs: "group_tuple_loop f rows align ref refs = Inr gs" "map fst gs = refs"
      "map group_size gs = map (\<lambda>r. length (filter (\<lambda>x. r = x) ref)) refs"
    using Cons by blast
  obtain ls where ls: "mask_select (map (\<lambda>x. r = x) ref) rows = Inr ls"
      "length ls = length (filter (\<lambda>x. r = x) ref)"
    using mask_select_length [OF assms(1)] by blast
  obtain al where al: "mask_select (map (\<lambda>x. r = x) ref) align = Inr al"
    using mask_select_length [OF assms(2)] by blast
  have sz: "group_size (r, TupleLabels f ls, al) = length ls" by (simp add: group_size_def)
  show ?case using gs ls al sz by (simp add: Let_def)
qed

lemma group_by_reference_tuple_partition:
  assumes "length rows = length ref" "length align = length ref"
  shows "\<exists>gs. group_by_reference (TupleLabels f rows) align ref = Inr gs
              \<and> map fst gs = numpy_unique ref
              \<and> sum_list (map group_size gs) = length ref"
proof -
  obtain gs where gs: "group_tuple_loop f rows align ref (numpy_unique ref) = Inr gs"
      "map fst gs = numpy_unique ref"
      "map group_size gs = map (\<lambda>r. length (filter (\<lambda>x. r = x) ref)) (numpy_unique ref)"
    using group_tuple_loop_sizes [OF assms] by blast
  have d: "distinct (numpy_unique ref)" "set (numpy_unique ref) = set ref"
    by (simp_all add: numpy_unique_def)
  have c: "(\<lambda>r. length (filter (\<lambda>x. r = x) ref)) = count_list ref"
    by (rule ext) (simp add: count_list_eq_length_filter eq_commute)
  have "sum_list (map group_size gs) = sum_list (map (count_list ref) (numpy_unique ref))"
    by (simp only: gs(3) c)
  also have "\<dots> = sum (count_list ref) (set (numpy_unique ref))"
    using d(1) by (rule sum_list_distinct_conv_sum_set)
  also have "\<dots> = length ref"
    using d(2) by (simp add: sum_count_set)
  finally have s: "sum_list (map group_size gs) = length ref" .
  show ?thesis using s gs by (simp add: group_by_reference_def Let_def)
qed

text \<open>
  C2. The claim is that every particle lands in exactly one group, also for a view with a
  single particle and for list-style labels. With list-style labels and one particle in a
  view, the squeezed index array is zero-dimensional and iterating over it is a type error.
\<close>

theorem group_by_reference_singleton_list_label:
  "group_by_reference (ListLabels [(''stack_001.spi'', 1::int)]) [[0::real]] [3] = Inl TypeError"
  by (simp add: group_by_reference_def numpy_unique_def argwhere_def squeeze_def iterate_def)

subsection \<open>Paging of the viewer\<close>

lemma py_slice_empty_beyond:
  assumes "int (length xs) < index"
  shows "py_slice xs (index * count) ((index + 1) * count) = []"
proof -
  consider "count = 0" | "count < 0" | "1 \<le> count" by linarith
  then show ?thesis
  proof cases
    case 1
    then show ?thesis by (simp add: py_slice_def py_bound_def)
  next
    case 2
    have pos: "0 < index" using assms by linarith
    have le: "(index + 1) * count \<le> index * count" using 2 by (simp add: algebra_simps)
    have neg: "index * count < 0" using 2 pos by (simp add: mult_pos_neg)
    have "py_bound (length xs) ((index + 1) * count) \<le> py_bound (length xs) (index * count)"
      using le neg unfolding py_bound_def by simp
    then show ?thesis by (simp add: py_slice_def)
  next
    case 3
    have "index \<le> index * count" using assms 3 mult_left_mono [of 1 count index] by simp
    then have "int (length xs) < index * count" using assms by linarith
    then have "py_bound (length xs) (index * count) = length xs"
      by (auto simp: py_bound_def)
    then show ?thesis by (simp add: py_slice_def)
  qed
qed

lemma py_slice_subset: "set (py_slice xs i j) \<subseteq> set xs"
  unfolding py_slice_def Let_def
  by (meson set_take_subset set_drop_subset subset_trans)

lemma py_slice_nth:
  assumes "0 \<le> i" "k < length (py_slice xs i j)"
  shows "nat i + k < length xs \<and> py_slice xs i j ! k = xs ! (nat i + k)"
proof -
  have a: "py_bound (length xs) i = min (length xs) (nat i)"
    using assms(1) by (simp add: py_bound_def)
  have k: "k < length (drop (min (length xs) (nat i)) xs)"
    using assms(2) unfolding py_slice_def Let_def a by simp
  then have lt: "nat i + k < length xs" by auto
  then have mn: "min (length xs) (nat i) = nat i" by simp
  have "py_slice xs i j ! k = drop (nat i) xs ! k"
    using assms(2) unfolding py_slice_def Let_def a mn by simp
  then show ?thesis using lt by simp
qed

lemma items_spinboxes [simp]:
  "items (v\<lparr>pageSpinBox := a\<rparr>) = items v" "items (v\<lparr>imageCountSpinBox := b\<rparr>) = items v"
  by (simp_all add: items_def)

text \<open>
  C9. When the requested page index exceeds the number of available entries,
  \<open>imageSubset\<close> returns no entry; when the subset of the requested page is empty, the
  page-load handler sets the page spin box to 0 and the page-size spin box to 1, each forced
  into the range of its widget (so to page 1 where the page numbers start at 1), and loads
  the first page of size one; every entry that \<open>imageSubset\<close> returns is an entry of the
  current list, and for a page index and page size that are not negative the entries are
  those at the positions from the returned start onwards, all inside the list.
\<close>

theorem viewer_page_bounds:
  "(int (imageTotal v) < index \<longrightarrow> fst (imageSubset v index count) = [])
   \<and> (files v \<noteq> [] \<and>
        fst (imageSubset v (sb_value (pageSpinBox v) - 1) (sb_value (imageCountSpinBox v))) = []
        \<longrightarrow> on_loadImagesPushButton_clicked v =
              (v\<lparr>pageSpinBox := setValue (pageSpinBox v) 0,
                 imageCountSpinBox := setValue (imageCountSpinBox v) 1\<rparr>,
               Some (take 1 (items v), 0)))
   \<and> (sb_minimum (pageSpinBox v) = 1 \<and> 1 \<le> sb_maximum (pageSpinBox v)
        \<longrightarrow> sb_value (setValue (pageSpinBox v) 0) = 1)
   \<and> (sb_minimum (imageCountSpinBox v) \<le> 1 \<and> 1 \<le> sb_maximum (imageCountSpinBox v)
        \<longrightarrow> sb_value (setValue (imageCountSpinBox v) 1) = 1)
   \<and> set (fst (imageSubset v index count)) \<subseteq> set (items v)
   \<and> (0 \<le> index \<and> 0 \<le> count \<longrightarrow>
        (\<forall>k < length (fst (imageSubset v index count)).
            nat (snd (imageSubset v index count)) + k < length (items v)
            \<and> fst (imageSubset v index count) ! k
                = items v ! (nat (snd (imageSubset v index count)) + k)))"
proof (intro conjI impI allI)
  assume "int (imageTotal v) < index"
  then show "fst (imageSubset v index count) = []"
    by (simp add: imageSubset_def imageTotal_def py_slice_empty_beyond)
next
  assume a: "files v \<noteq> [] \<and>
        fst (imageSubset v (sb_value (pageSpinBox v) - 1) (sb_value (imageCountSpinBox v))) = []"
  have "py_slice (items v) 0 1 = take 1 (items v)"
    by (cases "items v") (simp_all add: py_slice_def py_bound_def)
  then show "on_loadImagesPushButton_clicked v =
              (v\<lparr>pageSpinBox := setValue (pageSpinBox v) 0,
                 imageCountSpinBox := setValue (imageCountSpinBox v) 1\<rparr>,
               Some (take 1 (items v), 0))"
    using a by (simp add: on_loadImagesPushButton_clicked_def imageSubset_def Let_def)
next
  assume "sb_minimum (pageSpinBox v) = 1 \<and> 1 \<le> sb_maximum (pageSpinBox v)"
  then show "sb_value (setValue (pageSpinBox v) 0) = 1" by (simp add: setValue_def)
next
  assume "sb_minimum (imageCountSpinBox v) \<le> 1 \<and> 1 \<le> sb_maximum (imageCountSpinBox v)"
  then show "sb_value (setValue (imageCountSpinBox v) 1) = 1" by (auto simp add: setValue_def)
next
  show "set (fst (imageSubset v index count)) \<subseteq> set (items v)"
    by (simp add: imageSubset_def py_slice_subset)
next
  fix k
  assume a: "0 \<le> index \<and> 0 \<le> count" and k: "k < length (fst (imageSubset v index count))"
  have "0 \<le> index * count" using a by simp
  then have both: "nat (snd (imageSubset v index count)) + k < length (items v)
            \<and> fst (imageSubset v index count) ! k
                = items v ! (nat (snd (imageSubset v index count)) + k)"
    using k py_slice_nth [of "index * count" k "items v" "(index + 1) * count"]
    by (simp add: imageSubset_def)
  show "nat (snd (imageSubset v index count)) + k < length (items v)"
    using both by simp
  show "fst (imageSubset v index count) ! k
                = items v ! (nat (snd (imageSubset v index count)) + k)"
    using both by simp
qed

theorem viewer_page_bounds_witness:
  "fst (imageSubset
          \<lparr>files = [''a.spi''], file_index = [(0, 0, 0), (0, 1, 0)], average = None,
           pageSpinBox = \<lparr>sb_value = 9, sb_minimum = 1, sb_maximum = 10\<rparr>,
           imageCountSpinBox = \<lparr>sb_value = 3, sb_minimum = 1, sb_maximum = 100\<rparr>\<rparr> 8 3) = []
   \<and> on_loadImagesPushButton_clicked
          \<lparr>files = [''a.spi''], file_index = [(0, 0, 0), (0, 1, 0)], average = None,
           pageSpinBox = \<lparr>sb_value = 9, sb_minimum = 1, sb_maximum = 10\<rparr>,
           imageCountSpinBox = \<lparr>sb_value = 3, sb_minimum = 1, sb_maximum = 100\<rparr>\<rparr>
       = (\<lparr>files = [''a.spi''], file_index = [(0, 0, 0), (0, 1, 0)], average = None,
           pageSpinBox = \<lparr>sb_value = 1, sb_minimum = 1, sb_maximum = 10\<rparr>,
           imageCountSpinBox = \<lparr>sb_value = 1, sb_minimum = 1, sb_maximum = 100\<rparr>\<rparr>,
          Some ([IndexEntry 0 0 0], 0))
   \<and> fst (imageSubset
          \<lparr>files = [''a.spi''], file_index = [(0, 0, 0), (0, 1, 0)], average = None,
           pageSpinBox = \<lparr>sb_value = 9, sb_minimum = 1, sb_maximum = 10\<rparr>,
           imageCountSpinBox = \<lparr>sb_value = 3, sb_minimum = 1, sb_maximum = 100\<rparr>\<rparr> 0 1) ! 0
       = IndexEntry 0 0 0"
  using viewer_page_bounds
          [of "\<lparr>files = [''a.spi''], file_index = [(0, 0, 0), (0, 1, 0)], average = None,
               pageSpinBox = \<lparr>sb_value = 9, sb_minimum = 1, sb_maximum = 10\<rparr>,
               imageCountSpinBox = \<lparr>sb_value = 3, sb_minimum = 1, sb_maximum = 100\<rparr>\<rparr>" 8 3]
        viewer_page_bounds
          [of "\<lparr>files = [''a.spi''], file_index = [(0, 0, 0), (0, 1, 0)], average = None,
               pageSpinBox = \<lparr>sb_value = 9, sb_minimum = 1, sb_maximum = 10\<rparr>,
               imageCountSpinBox = \<lparr>sb_value = 3, sb_minimum = 1, sb_maximum = 100\<rparr>\<rparr>" 0 1]
  by (simp add: imageTotal_def items_def setValue_def imageSubset_def py_slice_def py_bound_def)

subsection \<open>The format adapter\<close>

text \<open>
  C10. Each of \<open>read_image\<close>, \<open>iter_images\<close>, \<open>count_images\<close> and \<open>write_image\<close>, given
  an object that is not a string in place of the file name, ends in the invalid-parameter
  error about file streams, and the world is the one it started in: no file was probed,
  read, written or opened, and no access was recorded.
\<close>

theorem stream_rejected_before_file_access:
  "read_image E w PyStream index hdr = (Inl (ValueError no_streams), w)
   \<and> iter_images E w PyStream index hdr = (Inl (ValueError no_streams), w)
   \<and> count_images E w PyStream = (Inl (ValueError no_streams), w)
   \<and> write_image E w PyStream img index hdr ty = (Inl (ValueError no_streams), w)"
  by (simp add: read_image_def iter_images_def count_images_def write_image_def concat_check_def)

text \<open>The patch writes four zero bytes at offset 104 and leaves the other bytes alone.\<close>

lemma seek_write_zero:
  "length (seek_write (26 * 4) pack_f_zero bytes) = max (length bytes) 108
   \<and> take 4 (drop 104 (seek_write (26 * 4) pack_f_zero bytes)) = [0, 0, 0, 0]
   \<and> (\<forall>k < length bytes. k < 104 \<or> 108 \<le> k
         \<longrightarrow> seek_write (26 * 4) pack_f_zero bytes ! k = bytes ! k)"
proof (intro conjI allI impI)
  show "length (seek_write (26 * 4) pack_f_zero bytes) = max (length bytes) 108"
    by (auto simp: seek_write_def pack_f_zero_def)
  have l: "length (take 104 bytes @ replicate (104 - length bytes) 0) = 104"
    by auto
  show "take 4 (drop 104 (seek_write (26 * 4) pack_f_zero bytes)) = [0, 0, 0, 0]"
    using l by (simp add: seek_write_def pack_f_zero_def)
  fix k assume k: "k < length bytes" and r: "k < 104 \<or> 108 \<le> k"
  show "seek_write (26 * 4) pack_f_zero bytes ! k = bytes ! k"
  proof (cases "k < 104")
    case True
    then show ?thesis using k by (simp add: seek_write_def nth_append)
  next
    case False
    then have k8: "108 \<le> k" using r by simp
    then have lb: "104 - length bytes = 0" using k by simp
    have "seek_write (26 * 4) pack_f_zero bytes = take 104 bytes @ pack_f_zero @ drop 108 bytes"
      using lb by (simp add: seek_write_def pack_f_zero_def)
    moreover have "length (take 104 bytes) = 104" using k k8 by simp
    ultimately show ?thesis using k k8
      by (simp add: nth_append pack_f_zero_def)
  qed
qed

lemma write_image_PyStr:
  "write_image E w (PyStr f) img index hdr ty =
     (let img1 = fold (\<lambda>(key, val). set_attr E key val) (update_header_write E hdr) img;
          t0 = (case ty of None \<Rightarrow> get_image_ext_type E f | Some t \<Rightarrow> t);
          img2 = (if t0 = IMAGE_MRC then flip_y E img1 else img1);
          t1 = (if t0 = IMAGE_UNKNOWN then IMAGE_SPIDER else t0);
          t2 = (case index of
                  None \<Rightarrow> (if t1 = IMAGE_SPIDER then IMAGE_SINGLE_SPIDER else t1)
                | Some i \<Rightarrow> t1);
          i = (case index of None \<Rightarrow> 0 | Some i \<Rightarrow> i);
          w1 = touch (WriteImage f i t2) w
      in case write_image_c E (disk w) f img2 i t2 of
           Inl e \<Rightarrow> (Inl e, w1)
         | Inr d \<Rightarrow> if t2 = IMAGE_SINGLE_SPIDER then hack_spider_file (w1\<lparr>disk := d\<rparr>) f
                     else (Inr (), w1\<lparr>disk := d\<rparr>))"
  by (simp add: write_image_def concat_check_def touch_def Let_def split: option.splits sum.splits)

lemma write_image_success:
  assumes "write_image E w (PyStr f) img index hdr ty = (Inr (), w')"
  shows "\<exists>i t img' d.
           write_image_c E (disk w) f img' i t = Inr d
           \<and> accesses w' = accesses w @ WriteImage f i t
                               # (if t = IMAGE_SINGLE_SPIDER then [OpenFile f] else [])
           \<and> (if t = IMAGE_SINGLE_SPIDER
               then (\<exists>bytes. d f = Some bytes
                       \<and> disk w' = d(f \<mapsto> seek_write (26 * 4) pack_f_zero bytes))
               else disk w' = d)
           \<and> (index = None \<longrightarrow> i = 0 \<and> t \<noteq> IMAGE_SPIDER)
           \<and> (\<forall>j. index = Some j \<longrightarrow> i = j)"
proof -
  define img1 where "img1 = fold (\<lambda>(key, val). set_attr E key val) (update_header_write E hdr) img"
  define t0 where "t0 = (case ty of None \<Rightarrow> get_image_ext_type E f | Some t \<Rightarrow> t)"
  define img2 where "img2 = (if t0 = IMAGE_MRC then flip_y E img1 else img1)"
  define t1 where "t1 = (if t0 = IMAGE_UNKNOWN then IMAGE_SPIDER else t0)"
  define t2 where "t2 = (case index of
                  None \<Rightarrow> (if t1 = IMAGE_SPIDER then IMAGE_SINGLE_SPIDER else t1)
                | Some i \<Rightarrow> t1)"
  define i where "i = (case index of None \<Rightarrow> 0 | Some i \<Rightarrow> i)"
  define w1 where "w1 = touch (WriteImage f i t2) w"
  have eq: "write_image E w (PyStr f) img index hdr ty =
      (case write_image_c E (disk w) f img2 i t2 of
           Inl e \<Rightarrow> (Inl e, w1)
         | Inr d \<Rightarrow> if t2 = IMAGE_SINGLE_SPIDER then hack_spider_file (w1\<lparr>disk := d\<rparr>) f
                     else (Inr (), w1\<lparr>disk := d\<rparr>))"
    unfolding write_image_PyStr img1_def t0_def img2_def t1_def t2_def i_def w1_def Let_def ..
  obtain d where d: "write_image_c E (disk w) f img2 i t2 = Inr d"
    using assms eq by (cases "write_image_c E (disk w) f img2 i t2") auto
  have idx: "(index = None \<longrightarrow> i = 0 \<and> t2 \<noteq> IMAGE_SPIDER) \<and> (\<forall>j. index = Some j \<longrightarrow> i = j)"
    by (auto simp: i_def t2_def)
  show ?thesis
  proof (cases "t2 = IMAGE_SINGLE_SPIDER")
    case True
    then have h: "hack_spider_file (w1\<lparr>disk := d\<rparr>) f = (Inr (), w')"
      using assms eq d by simp
    then obtain bytes where b: "d f = Some bytes"
        and w': "w' = (touch (OpenFile f) (w1\<lparr>disk := d\<rparr>))
                        \<lparr>disk := d(f \<mapsto> seek_write (26 * 4) pack_f_zero bytes)\<rparr>"
      by (auto simp: hack_spider_file_def touch_def Let_def split: option.splits)
    have "accesses w' = accesses w @ [WriteImage f i t2, OpenFile f]"
      by (simp add: w' w1_def touch_def)
    moreover have "disk w' = d(f \<mapsto> seek_write (26 * 4) pack_f_zero bytes)"
      by (simp add: w')
    ultimately show ?thesis
      using d b idx True by (intro exI [of _ i] exI [of _ t2] exI [of _ img2] exI [of _ d]) simp
  next
    case False
    then have w': "w' = w1\<lparr>disk := d\<rparr>" using assms eq d by simp
    have "accesses w' = accesses w @ [WriteImage f i t2]" "disk w' = d"
      by (simp_all add: w' w1_def touch_def)
    then show ?thesis
      using d idx False by (intro exI [of _ i] exI [of _ t2] exI [of _ img2] exI [of _ d]) simp
  qed
qed

lemma write_image_demotes:
  "write_image E w (PyStr f) img None hdr (Some IMAGE_SPIDER)
     = write_image E w (PyStr f) img (Some 0) hdr (Some IMAGE_SINGLE_SPIDER)"
  by (simp add: write_image_def concat_check_def Let_def split: sum.splits)


lemma write_image_as_single_spider:
  assumes t0: "t0 = (case ty of None \<Rightarrow> get_image_ext_type E f | Some t \<Rightarrow> t)"
    and i: "i = (case index of None \<Rightarrow> 0 | Some j \<Rightarrow> j)"
    and s: "t0 = IMAGE_SINGLE_SPIDER \<or> (index = None \<and> (t0 = IMAGE_SPIDER \<or> t0 = IMAGE_UNKNOWN))"
  shows "write_image E w (PyStr f) img index hdr ty =
      (case write_image_c E (disk w) f
              (fold (\<lambda>(key, val). set_attr E key val) (update_header_write E hdr) img)
              i IMAGE_SINGLE_SPIDER of
         Inl e \<Rightarrow> (Inl e, w\<lparr>accesses := accesses w @ [WriteImage f i IMAGE_SINGLE_SPIDER]\<rparr>)
       | Inr d \<Rightarrow>
          (case d f of
             None \<Rightarrow>
               (Inl (IOError f),
                \<lparr>disk = d,
                 accesses = accesses w @ [WriteImage f i IMAGE_SINGLE_SPIDER, OpenFile f]\<rparr>)
           | Some bytes \<Rightarrow>
               (Inr (),
                \<lparr>disk = d(f \<mapsto> seek_write (26 * 4) pack_f_zero bytes),
                 accesses = accesses w @ [WriteImage f i IMAGE_SINGLE_SPIDER, OpenFile f]\<rparr>)))"
proof -
  have ne: "t0 \<noteq> IMAGE_MRC" using s by auto
  have t2: "(case index of
               None \<Rightarrow> (if (if t0 = IMAGE_UNKNOWN then IMAGE_SPIDER else t0) = IMAGE_SPIDER
                          then IMAGE_SINGLE_SPIDER
                          else (if t0 = IMAGE_UNKNOWN then IMAGE_SPIDER else t0))
             | Some i \<Rightarrow> (if t0 = IMAGE_UNKNOWN then IMAGE_SPIDER else t0)) = IMAGE_SINGLE_SPIDER"
    using s by (cases index) auto
  have e: "write_image E w (PyStr f) img index hdr ty =
      (case write_image_c E (disk w) f
              (fold (\<lambda>(key, val). set_attr E key val) (update_header_write E hdr) img)
              i IMAGE_SINGLE_SPIDER of
         Inl e \<Rightarrow> (Inl e, touch (WriteImage f i IMAGE_SINGLE_SPIDER) w)
       | Inr d \<Rightarrow> hack_spider_file ((touch (WriteImage f i IMAGE_SINGLE_SPIDER) w)\<lparr>disk := d\<rparr>) f)"
    unfolding write_image_PyStr Let_def t0 [symmetric] i [symmetric] t2
    using ne by (simp split: sum.splits)
  show ?thesis
    unfolding e hack_spider_file_def touch_def Let_def
    by (simp split: sum.splits option.splits)
qed


text \<open>
  C8. A write of SPIDER stack type without an index is the write of single-image SPIDER
  type at index 0. Whenever the type is single-image SPIDER, given or taken from the
  extension, or is the stack type (given, taken from the extension, or assumed for an
  unknown type) without an index, the native write is made with the single-image SPIDER
  type, at the given index or at 0, and behind a successful native write the file is
  opened and its bytes 104 to 107 are overwritten by the four bytes of the float 0.0, every
  other byte staying as the native write left it. Whenever \<open>write_image\<close> succeeds, the
  native write it made is recorded with its index and type, and a write of the
  single-image type is followed by the patch.
\<close>

theorem write_image_single_spider:
  "write_image E w (PyStr f) img None hdr (Some IMAGE_SPIDER)
     = write_image E w (PyStr f) img (Some 0) hdr (Some IMAGE_SINGLE_SPIDER)
   \<and> (t0 = (case ty of None \<Rightarrow> get_image_ext_type E f | Some t \<Rightarrow> t)
        \<and> i = (case index of None \<Rightarrow> 0 | Some j \<Rightarrow> j)
        \<and> (t0 = IMAGE_SINGLE_SPIDER
             \<or> (index = None \<and> (t0 = IMAGE_SPIDER \<or> t0 = IMAGE_UNKNOWN)))
        \<longrightarrow>
        write_image E w (PyStr f) img index hdr ty =
          (case write_image_c E (disk w) f
                  (fold (\<lambda>(key, val). set_attr E key val) (update_header_write E hdr) img)
                  i IMAGE_SINGLE_SPIDER of
             Inl e \<Rightarrow> (Inl e, w\<lparr>accesses := accesses w @ [WriteImage f i IMAGE_SINGLE_SPIDER]\<rparr>)
           | Inr d \<Rightarrow>
              (case d f of
                 None \<Rightarrow>
                   (Inl (IOError f),
                    \<lparr>disk = d,
                     accesses = accesses w @ [WriteImage f i IMAGE_SINGLE_SPIDER, OpenFile f]\<rparr>)
               | Some bytes \<Rightarrow>
                   (Inr (),
                    \<lparr>disk = d(f \<mapsto> seek_write (26 * 4) pack_f_zero bytes),
                     accesses = accesses w @ [WriteImage f i IMAGE_SINGLE_SPIDER, OpenFile f]\<rparr>))))
   \<and> (write_image E w (PyStr f) img index hdr ty = (Inr (), w') \<longrightarrow>
        (\<exists>i t img' d.
           write_image_c E (disk w) f img' i t = Inr d
           \<and> accesses w' = accesses w @ WriteImage f i t
                               # (if t = IMAGE_SINGLE_SPIDER then [OpenFile f] else [])
           \<and> (if t = IMAGE_SINGLE_SPIDER
               then (\<exists>bytes. d f = Some bytes
                       \<and> disk w' = d(f \<mapsto> seek_write (26 * 4) pack_f_zero bytes))
               else disk w' = d)
           \<and> (index = None \<longrightarrow> i = 0 \<and> t \<noteq> IMAGE_SPIDER)
           \<and> (\<forall>j. index = Some j \<longrightarrow> i = j)))
   \<and> length (seek_write (26 * 4) pack_f_zero bytes) = max (length bytes) 108
   \<and> take 4 (drop 104 (seek_write (26 * 4) pack_f_zero bytes)) = [0, 0, 0, 0]
   \<and> (\<forall>k < length bytes. k < 104 \<or> 108 \<le> k
         \<longrightarrow> seek_write (26 * 4) pack_f_zero bytes ! k = bytes ! k)"
proof -
  have c1: "write_image E w (PyStr f) img None hdr (Some IMAGE_SPIDER)
              = write_image E w (PyStr f) img (Some 0) hdr (Some IMAGE_SINGLE_SPIDER)"
    by (rule write_image_demotes)
  have c2: "t0 = (case ty of None \<Rightarrow> get_image_ext_type E f | Some t \<Rightarrow> t)
        \<and> i = (case index of None \<Rightarrow> 0 | Some j \<Rightarrow> j)
        \<and> (t0 = IMAGE_SINGLE_SPIDER
             \<or> (index = None \<and> (t0 = IMAGE_SPIDER \<or> t0 = IMAGE_UNKNOWN)))
        \<longrightarrow>
        write_image E w (PyStr f) img index hdr ty =
          (case write_image_c E (disk w) f
                  (fold (\<lambda>(key, val). set_attr E key val) (update_header_write E hdr) img)
                  i IMAGE_SINGLE_SPIDER of
             Inl e \<Rightarrow> (Inl e, w\<lparr>accesses := accesses w @ [WriteImage f i IMAGE_SINGLE_SPIDER]\<rparr>)
           | Inr d \<Rightarrow>
              (case d f of
                 None \<Rightarrow>
                   (Inl (IOError f),
                    \<lparr>disk = d,
                     accesses = accesses w @ [WriteImage f i IMAGE_SINGLE_SPIDER, OpenFile f]\<rparr>)
               | Some bytes \<Rightarrow>
                   (Inr (),
                    \<lparr>disk = d(f \<mapsto> seek_write (26 * 4) pack_f_zero bytes),
                     accesses = accesses w @ [WriteImage f i IMAGE_SINGLE_SPIDER, OpenFile f]\<rparr>)))"
  proof (intro impI, elim conjE)
    assume a: "t0 = (case ty of None \<Rightarrow> get_image_ext_type E f | Some t \<Rightarrow> t)"
      and b: "i = (case index of None \<Rightarrow> 0 | Some j \<Rightarrow> j)"
      and c: "t0 = IMAGE_SINGLE_SPIDER
               \<or> (index = None \<and> (t0 = IMAGE_SPIDER \<or> t0 = IMAGE_UNKNOWN))"
    show "write_image E w (PyStr f) img index hdr ty =
          (case write_image_c E (disk w) f
                  (fold (\<lambda>(key, val). set_attr E key val) (update_header_write E hdr) img)
                  i IMAGE_SINGLE_SPIDER of
             Inl e \<Rightarrow> (Inl e, w\<lparr>accesses := accesses w @ [WriteImage f i IMAGE_SINGLE_SPIDER]\<rparr>)
           | Inr d \<Rightarrow>
              (case d f of
                 None \<Rightarrow>
                   (Inl (IOError f),
                    \<lparr>disk = d,
                     accesses = accesses w @ [WriteImage f i IMAGE_SINGLE_SPIDER, OpenFile f]\<rparr>)
               | Some bytes \<Rightarrow>
                   (Inr (),
                    \<lparr>disk = d(f \<mapsto> seek_write (26 * 4) pack_f_zero bytes),
                     accesses = accesses w @ [WriteImage f i IMAGE_SINGLE_SPIDER, OpenFile f]\<rparr>)))"
      using a b c by (rule write_image_as_single_spider)
  qed
  have c3: "write_image E w (PyStr f) img index hdr ty = (Inr (), w') \<longrightarrow>
        (\<exists>i t img' d.
           write_image_c E (disk w) f img' i t = Inr d
           \<and> accesses w' = accesses w @ WriteImage f i t
                               # (if t = IMAGE_SINGLE_SPIDER then [OpenFile f] else [])
           \<and> (if t = IMAGE_SINGLE_SPIDER
               then (\<exists>bytes. d f = Some bytes
                       \<and> disk w' = d(f \<mapsto> seek_write (26 * 4) pack_f_zero bytes))
               else disk w' = d)
           \<and> (index = None \<longrightarrow> i = 0 \<and> t \<noteq> IMAGE_SPIDER)
           \<and> (\<forall>j. index = Some j \<longrightarrow> i = j))"
    by (rule impI) (rule write_image_success)
  note z = seek_write_zero [of bytes]
  show ?thesis
    by (intro conjI c1 c2 c3 z [THEN conjunct1] z [THEN conjunct2, THEN conjunct1]
          z [THEN conjunct2, THEN conjunct2])
qed

theorem write_image_single_spider_witness:
  "write_image
     \<lparr>get_image_type = (\<lambda>d f. Inr IMAGE_MRC), get_image_count = (\<lambda>d f. 1),
      read_image_c = (\<lambda>d f i. Inr (0::nat)), get_attr_label0 = (\<lambda>i. None), flip_y = (\<lambda>i. i + 1),
      set_attr = (\<lambda>k v i. i), get_image_ext_type = (\<lambda>f. IMAGE_MRC),
      write_image_c = (\<lambda>d f img i t. Inr (d(f \<mapsto> replicate 110 1))),
      update_header_read = (\<lambda>i h. h), update_header_write = (\<lambda>h. [])\<rparr>
     \<lparr>disk = Map.empty, accesses = []\<rparr> (PyStr ''a.mrc'') 0 None None (Some IMAGE_SPIDER)
   = (Inr (),
      \<lparr>disk = [''a.mrc'' \<mapsto> replicate 104 1 @ [0, 0, 0, 0, 1, 1]],
       accesses = [WriteImage ''a.mrc'' 0 IMAGE_SINGLE_SPIDER, OpenFile ''a.mrc'']\<rparr>)
   \<and> take 4 (drop 104 (seek_write (26 * 4) pack_f_zero (replicate 110 1))) = [0, 0, 0, 0]"
proof -
  let ?E = "\<lparr>get_image_type = (\<lambda>d f. Inr IMAGE_MRC), get_image_count = (\<lambda>d f. 1),
      read_image_c = (\<lambda>d f i. Inr (0::nat)), get_attr_label0 = (\<lambda>i. None), flip_y = (\<lambda>i. i + 1),
      set_attr = (\<lambda>k v i. i), get_image_ext_type = (\<lambda>f. IMAGE_MRC),
      write_image_c = (\<lambda>d f img i t. Inr (d(f \<mapsto> replicate 110 (1::byte)))),
      update_header_read = (\<lambda>i h. h), update_header_write = (\<lambda>h. [])\<rparr>"
  let ?w = "\<lparr>disk = Map.empty, accesses = []\<rparr>"
  have sw: "seek_write 104 pack_f_zero (replicate 110 (1::byte))
              = replicate 104 1 @ [0, 0, 0, 0, 1, 1]"
    by (simp add: seek_write_def pack_f_zero_def replicate_append_same numeral_eq_Suc)
  note T = write_image_single_spider
            [where E = ?E and w = ?w and f = "''a.mrc''" and img = 0 and index = None
               and hdr = None and ty = "Some IMAGE_SPIDER" and ?t0.0 = IMAGE_SPIDER and i = 0
               and bytes = "replicate 110 1"
               and w' = "\<lparr>disk = [''a.mrc'' \<mapsto> replicate 104 1 @ [0, 0, 0, 0, 1, 1]],
                         accesses = [WriteImage ''a.mrc'' 0 IMAGE_SINGLE_SPIDER,
                                     OpenFile ''a.mrc'']\<rparr>"]
  have h: "IMAGE_SPIDER = (case Some IMAGE_SPIDER of None \<Rightarrow> get_image_ext_type ?E ''a.mrc''
                           | Some t \<Rightarrow> t)
           \<and> (0::int) = (case None of None \<Rightarrow> 0 | Some j \<Rightarrow> j)
           \<and> (IMAGE_SPIDER = IMAGE_SINGLE_SPIDER
                \<or> ((None::int option) = None
                    \<and> (IMAGE_SPIDER = IMAGE_SPIDER \<or> IMAGE_SPIDER = IMAGE_UNKNOWN)))"
    by simp
  have run: "write_image ?E ?w (PyStr ''a.mrc'') 0 None None (Some IMAGE_SPIDER)
      = (case write_image_c ?E (disk ?w) ''a.mrc''
              (fold (\<lambda>(key, val). set_attr ?E key val) (update_header_write ?E None) 0)
              0 IMAGE_SINGLE_SPIDER of
         Inl e \<Rightarrow> (Inl e, ?w\<lparr>accesses := accesses ?w @ [WriteImage ''a.mrc'' 0 IMAGE_SINGLE_SPIDER]\<rparr>)
       | Inr d \<Rightarrow>
          (case d ''a.mrc'' of
             None \<Rightarrow>
               (Inl (IOError ''a.mrc''),
                \<lparr>disk = d,
                 accesses = accesses ?w @ [WriteImage ''a.mrc'' 0 IMAGE_SINGLE_SPIDER, OpenFile ''a.mrc'']\<rparr>)
           | Some bytes \<Rightarrow>
               (Inr (),
                \<lparr>disk = d(''a.mrc'' \<mapsto> seek_write (26 * 4) pack_f_zero bytes),
                 accesses = accesses ?w @ [WriteImage ''a.mrc'' 0 IMAGE_SINGLE_SPIDER, OpenFile ''a.mrc'']\<rparr>)))"
    using T [THEN conjunct2, THEN conjunct1] h by (rule mp)
  have z: "take 4 (drop 104 (seek_write (26 * 4) pack_f_zero (replicate 110 (1::byte)))) = [0, 0, 0, 0]"
    by (rule T [THEN conjunct2, THEN conjunct2, THEN conjunct2, THEN conjunct2, THEN conjunct1])
  show ?thesis
    unfolding run using z by (simp add: sw)
qed

subsection \<open>Mahalanobis cut-off\<close>







subsection \<open>Least-squares frame alignment\<close>



































end
